theory Spec2Isabelle
  imports Main "HOL-Library.AList" "HOL-Library.Word"
begin

section \<open>Python values\<close>

text \<open>
  The values \<^verbatim>\<open>json.load\<close> produces (None, bool, int, float, str, list, dict with string
  keys), and the tuple that \<^verbatim>\<open>from_json\<close> builds with \<^verbatim>\<open>tuple(...)\<close>. A float is its
  IEEE double, 64 bits. A dict is an association list in insertion order; \<^verbatim>\<open>json.load\<close>
  yields distinct keys, and a lookup reads the first pair with the key.
\<close>

datatype pyval =
    PyNone
  | PyBool bool
  | PyInt int
  | PyFloat "64 word"
  | PyStr string
  | PyList "pyval list"
  | PyTuple "pyval list"
  | PyDict "(string \<times> pyval) list"

text \<open>\<^verbatim>\<open>isinstance(x, list)\<close> and \<^verbatim>\<open>isinstance(x, dict)\<close>.\<close>

fun isinstance_list :: "pyval \<Rightarrow> bool" where
  "isinstance_list (PyList xs) = True"
| "isinstance_list v = False"

fun isinstance_dict :: "pyval \<Rightarrow> bool" where
  "isinstance_dict (PyDict kvs) = True"
| "isinstance_dict v = False"

section \<open>Paths and the filesystem\<close>

text \<open>
  A \<^verbatim>\<open>pathlib\<close> path on POSIX: its root (none, \<^verbatim>\<open>/\<close>, or exactly \<^verbatim>\<open>//\<close>) and its parts.
  Parsing a string splits it at \<^verbatim>\<open>/\<close> and drops empty parts and \<^verbatim>\<open>.\<close> parts.
\<close>

datatype anchor = NoRoot | Root | DoubleRoot

datatype path = Path (anchor: anchor) (parts: "string list")

fun split_sep :: "string \<Rightarrow> string list" where
  "split_sep [] = [[]]"
| "split_sep (c # cs) =
     (if c = CHR ''/'' then [] # split_sep cs
      else (case split_sep cs of
              w # ws \<Rightarrow> (c # w) # ws
            | [] \<Rightarrow> [[c]]))"

definition splitroot :: "string \<Rightarrow> anchor \<times> string" where
  "splitroot p =
     (if take 1 p \<noteq> ''/'' then (NoRoot, p)
      else if take 1 (drop 1 p) \<noteq> ''/'' \<or> take 1 (drop 2 p) = ''/'' then (Root, drop 1 p)
      else (DoubleRoot, drop 2 p))"

definition parse_path :: "string \<Rightarrow> path" where
  "parse_path s =
     (case splitroot s of
        (a, rel) \<Rightarrow> Path a (filter (\<lambda>x. x \<noteq> [] \<and> x \<noteq> ''.'') (split_sep rel)))"

text \<open>\<^verbatim>\<open>p.parent\<close>: a path with no parts is its own parent.\<close>

definition parent :: "path \<Rightarrow> path" where
  "parent p = Path (anchor p) (butlast (parts p))"

text \<open>\<^verbatim>\<open>p / s\<close>: an absolute \<^verbatim>\<open>s\<close> replaces \<^verbatim>\<open>p\<close>, a relative one is appended.\<close>

definition joinpath :: "path \<Rightarrow> string \<Rightarrow> path" where
  "joinpath p s =
     (let q = parse_path s
      in if anchor q \<noteq> NoRoot then q else Path (anchor p) (parts p @ parts q))"

text \<open>
  What is at a path, as far as this code can tell: a directory, a regular file that may
  not be read, a regular file on which \<^verbatim>\<open>json.load\<close> raises, or a regular file with the
  value \<^verbatim>\<open>json.load\<close> returns for it.
\<close>

datatype node = Directory | Unreadable | Undecodable | Json pyval

text \<open>
  What the system answers when the path is looked up (\<^verbatim>\<open>os.stat\<close>, \<^verbatim>\<open>open\<close>): the node
  found there; nothing there (ENOENT, ENOTDIR, EBADF, ELOOP); a name longer than the system
  allows, which no file has (ENAMETOOLONG); or a directory on the way that may not be
  searched (EACCES). One snapshot of the disk serves a whole call.
\<close>

datatype lookup = Found node | NotFound | NameTooLong | AccessDenied

type_synonym filesystem = "path \<Rightarrow> lookup"

datatype error =
    FileNotFoundError path
  | ValueError path
  | IsADirectoryError path
  | PermissionError path
  | OSError path
  | JSONDecodeError
  | TypeError
  | NotImplementedError

text \<open>
  \<^verbatim>\<open>FileNotFoundError p\<close> and \<^verbatim>\<open>ValueError p\<close> carry the path that the source formats into
  the message after its fixed text. \<^verbatim>\<open>OSError p\<close> is the plain OSError of a name too long;
  it is not a FileNotFoundError.
\<close>

text \<open>
  \<^verbatim>\<open>Path.exists()\<close>: True when \<^verbatim>\<open>os.stat\<close> succeeds, False when it fails with ENOENT,
  ENOTDIR, EBADF or ELOOP; any other OSError is raised again.
\<close>

definition exists :: "filesystem \<Rightarrow> path \<Rightarrow> error + bool" where
  "exists fs p =
     (case fs p of
        Found n \<Rightarrow> Inr True
      | NotFound \<Rightarrow> Inr False
      | NameTooLong \<Rightarrow> Inl (OSError p)
      | AccessDenied \<Rightarrow> Inl (PermissionError p))"

text \<open>\<^verbatim>\<open>with open(p, 'r', encoding='utf-8') as f: data = json.load(f)\<close>\<close>

definition open_json_load :: "filesystem \<Rightarrow> path \<Rightarrow> error + pyval" where
  "open_json_load fs p =
     (case fs p of
        Found Directory \<Rightarrow> Inl (IsADirectoryError p)
      | Found Unreadable \<Rightarrow> Inl (PermissionError p)
      | Found Undecodable \<Rightarrow> Inl JSONDecodeError
      | Found (Json v) \<Rightarrow> Inr v
      | NotFound \<Rightarrow> Inl (FileNotFoundError p)
      | NameTooLong \<Rightarrow> Inl (OSError p)
      | AccessDenied \<Rightarrow> Inl (PermissionError p))"

section \<open>core/word\_loader.py\<close>

record WordLoader =
  data_path :: path
  shared_words_path :: "string option"

text \<open>
  \<^verbatim>\<open>validate_data\<close>: the loop over \<^verbatim>\<open>data[:min(10, len(data))]\<close> returns False at the
  first item that is not a dict.
\<close>

fun validate_items :: "pyval list \<Rightarrow> bool" where
  "validate_items [] = True"
| "validate_items (item # items) =
     (if \<not> isinstance_dict item then False else validate_items items)"

definition validate_data :: "pyval \<Rightarrow> bool" where
  "validate_data data =
     (case data of
        PyList xs \<Rightarrow>
          if length xs = 0 then False
          else validate_items (take (min 10 (length xs)) xs)
      | _ \<Rightarrow> False)"

text \<open>
  \<^verbatim>\<open>_get_target_path\<close>, with the paths it calls \<^verbatim>\<open>exists()\<close> on, in order. The guard
  \<^verbatim>\<open>if self.shared_words_path:\<close> is false for None and for the empty string. An error
  raised by \<^verbatim>\<open>exists()\<close> is not caught.
\<close>

definition get_target_path_probed ::
    "filesystem \<Rightarrow> WordLoader \<Rightarrow> (error + path) \<times> path list" where
  "get_target_path_probed fs l =
     (case shared_words_path l of
        None \<Rightarrow> (Inr (data_path l), [])
      | Some s \<Rightarrow>
          if s = [] then (Inr (data_path l), [])
          else
            (let languages_dir = parent (parent (data_path l));
                 shared_path = joinpath languages_dir s
             in (case exists fs shared_path of
                   Inl e \<Rightarrow> (Inl e, [shared_path])
                 | Inr found \<Rightarrow>
                     if found then (Inr shared_path, [shared_path])
                     else (Inr (data_path l), [shared_path]))))"

definition get_target_path :: "filesystem \<Rightarrow> WordLoader \<Rightarrow> error + path" where
  "get_target_path fs l = fst (get_target_path_probed fs l)"

definition load_json :: "filesystem \<Rightarrow> WordLoader \<Rightarrow> error + pyval" where
  "load_json fs l =
     (case get_target_path fs l of
        Inl e \<Rightarrow> Inl e
      | Inr target_path \<Rightarrow>
          (case exists fs target_path of
             Inl e \<Rightarrow> Inl e
           | Inr found \<Rightarrow>
               if \<not> found then Inl (FileNotFoundError target_path)
               else (case open_json_load fs target_path of
                       Inl e \<Rightarrow> Inl e
                     | Inr data \<Rightarrow>
                         if \<not> validate_data data then Inl (ValueError (data_path l))
                         else Inr data)))"

definition load_csv :: "WordLoader \<Rightarrow> string \<Rightarrow> error + pyval" where
  "load_csv l delimiter = Inl NotImplementedError"

section \<open>core/language\_config.py\<close>

record LanguageConfig =
  lang_id :: pyval
  lang_name :: pyval
  fonts :: pyval
  styles :: pyval
  card_size :: pyval
  theme_colors :: pyval
  level_filter :: pyval
  cfg_shared_words_path :: pyval

text \<open>
  The dataclass does not check the annotated types, so a field holds whatever value the
  JSON gave. \<^verbatim>\<open>cfg_shared_words_path\<close> is the field \<^verbatim>\<open>shared_words_path\<close> of the class.
\<close>

definition field_names :: "string list" where
  "field_names = [''lang_id'', ''lang_name'', ''fonts'', ''styles'', ''card_size'',
                  ''theme_colors'', ''level_filter'', ''shared_words_path'']"

definition get_default :: "(string \<times> pyval) list \<Rightarrow> string \<Rightarrow> pyval \<Rightarrow> pyval" where
  "get_default kw k d = (case map_of kw k of None \<Rightarrow> d | Some v \<Rightarrow> v)"

text \<open>
  \<^verbatim>\<open>cls(**data)\<close>: the generated \<^verbatim>\<open>__init__\<close> raises TypeError for a keyword that is not
  a field and for a missing field without default; the other fields take their defaults
  \<^verbatim>\<open>(432, 540)\<close>, \<^verbatim>\<open>list()\<close>, \<^verbatim>\<open>"all"\<close>, \<^verbatim>\<open>None\<close>.
\<close>

definition LanguageConfig_init :: "(string \<times> pyval) list \<Rightarrow> error + LanguageConfig" where
  "LanguageConfig_init kw =
     (if \<not> list_all (\<lambda>kv. fst kv \<in> set field_names) kw then Inl TypeError
      else
        (case (map_of kw ''lang_id'', map_of kw ''lang_name'',
               map_of kw ''fonts'', map_of kw ''styles'') of
           (Some i, Some n, Some f, Some s) \<Rightarrow>
             Inr \<lparr> lang_id = i, lang_name = n, fonts = f, styles = s,
                   card_size = get_default kw ''card_size'' (PyTuple [PyInt 432, PyInt 540]),
                   theme_colors = get_default kw ''theme_colors'' (PyList []),
                   level_filter = get_default kw ''level_filter'' (PyStr ''all''),
                   cfg_shared_words_path = get_default kw ''shared_words_path'' PyNone \<rparr>
         | _ \<Rightarrow> Inl TypeError))"

text \<open>The three steps of \<^verbatim>\<open>from_json\<close> between parsing and construction.\<close>

definition convert_card_size :: "(string \<times> pyval) list \<Rightarrow> (string \<times> pyval) list" where
  "convert_card_size d =
     (case map_of d ''card_size'' of
        Some (PyList xs) \<Rightarrow> AList.update ''card_size'' (PyTuple xs) d
      | _ \<Rightarrow> d)"

definition set_if_absent :: "string \<Rightarrow> pyval \<Rightarrow> (string \<times> pyval) list \<Rightarrow> (string \<times> pyval) list" where
  "set_if_absent k v d = (if map_of d k = None then AList.update k v d else d)"

text \<open>
  \<^verbatim>\<open>from_json\<close>. Parsed data that is not a dict ends in TypeError on every path: a number,
  a bool or None at \<^verbatim>\<open>'card_size' in data\<close>; a list or a string at \<^verbatim>\<open>data['card_size']\<close>,
  at the first item assignment, or at \<^verbatim>\<open>cls(**data)\<close>.
\<close>

definition from_json :: "filesystem \<Rightarrow> path \<Rightarrow> error + LanguageConfig" where
  "from_json fs config_path =
     (case exists fs config_path of
        Inl e \<Rightarrow> Inl e
      | Inr found \<Rightarrow>
          if \<not> found then Inl (FileNotFoundError config_path)
          else (case open_json_load fs config_path of
                  Inl e \<Rightarrow> Inl e
                | Inr (PyDict d) \<Rightarrow>
                    LanguageConfig_init
                      (set_if_absent ''shared_words_path'' PyNone
                        (set_if_absent ''level_filter'' (PyStr ''all'')
                          (set_if_absent ''theme_colors'' (PyList [])
                            (convert_card_size d))))
                | Inr _ \<Rightarrow> Inl TypeError))"

text \<open>
  \<^verbatim>\<open>list(x)\<close>: the items of a tuple or list, the characters of a string, the keys of a
  dict; TypeError for a value that is not iterable.
\<close>

fun py_list :: "pyval \<Rightarrow> error + pyval list" where
  "py_list (PyTuple xs) = Inr xs"
| "py_list (PyList xs) = Inr xs"
| "py_list (PyStr s) = Inr (map (\<lambda>c. PyStr [c]) s)"
| "py_list (PyDict kvs) = Inr (map (\<lambda>kv. PyStr (fst kv)) kvs)"
| "py_list v = Inl TypeError"

definition to_dict :: "LanguageConfig \<Rightarrow> error + (string \<times> pyval) list" where
  "to_dict r =
     (case py_list (card_size r) of
        Inl e \<Rightarrow> Inl e
      | Inr xs \<Rightarrow>
          Inr [(''lang_id'', lang_id r),
               (''lang_name'', lang_name r),
               (''fonts'', fonts r),
               (''styles'', styles r),
               (''card_size'', PyList xs),
               (''theme_colors'', theme_colors r)])"

section \<open>Example disks and loaders\<close>

definition ja_words :: path where
  "ja_words = Path NoRoot [''languages'', ''ja'', ''words.json'']"

definition common_words :: path where
  "common_words = Path NoRoot [''languages'', ''shared'', ''common_words.json'']"

definition primary_list :: pyval where
  "primary_list = PyList [PyDict [(''word'', PyStr ''neko'')]]"

definition shared_list :: pyval where
  "shared_list = PyList [PyDict [(''word'', PyStr ''inu'')]]"

text \<open>A disk holding the listed files and nothing else.\<close>

definition disk :: "(path \<times> node) list \<Rightarrow> filesystem" where
  "disk files p = (case map_of files p of None \<Rightarrow> NotFound | Some n \<Rightarrow> Found n)"

text \<open>The same disk on a system that refuses a name of more than 255 characters.\<close>

definition name_max :: "filesystem \<Rightarrow> filesystem" where
  "name_max fs p = (if list_ex (\<lambda>x. 255 < length x) (parts p) then NameTooLong else fs p)"

definition long_name :: string where
  "long_name = replicate 300 (CHR ''a'')"

definition fs_both :: filesystem where
  "fs_both = disk [(ja_words, Json primary_list), (common_words, Json shared_list)]"

definition fs_primary_only :: filesystem where
  "fs_primary_only = disk [(ja_words, Json primary_list)]"

definition fs_shared_empty_list :: filesystem where
  "fs_shared_empty_list = disk [(ja_words, Json primary_list), (common_words, Json (PyList []))]"

definition fs_languages_dir :: filesystem where
  "fs_languages_dir =
     disk [(Path NoRoot [''languages''], Directory), (ja_words, Json primary_list)]"

definition ja_loader :: "string option \<Rightarrow> WordLoader" where
  "ja_loader s = \<lparr> data_path = ja_words, shared_words_path = s \<rparr>"

definition ten_dicts_then_str :: "pyval list" where
  "ten_dicts_then_str = replicate 10 (PyDict []) @ [PyStr ''not-a-dict'']"

definition fs_long :: filesystem where
  "fs_long = disk [(ja_words, Json (PyList ten_dicts_then_str))]"

definition config_json :: path where
  "config_json = Path NoRoot [''languages'', ''ja'', ''config.json'']"

definition minimal_config :: "(string \<times> pyval) list" where
  "minimal_config =
     [(''lang_id'', PyStr ''ja''), (''lang_name'', PyStr ''Japanese''),
      (''fonts'', PyDict [(''main'', PyStr ''NotoSansJP'')]), (''styles'', PyDict [])]"

definition sized_config :: "pyval list \<Rightarrow> (string \<times> pyval) list" where
  "sized_config xs = minimal_config @ [(''card_size'', PyList xs)]"

definition fs_config :: "(string \<times> pyval) list \<Rightarrow> filesystem" where
  "fs_config d = disk [(config_json, Json (PyDict d))]"

definition ja_config :: LanguageConfig where
  "ja_config =
     \<lparr> lang_id = PyStr ''ja'', lang_name = PyStr ''Japanese'',
       fonts = PyDict [(''main'', PyStr ''NotoSansJP'')], styles = PyDict [],
       card_size = PyTuple [PyInt 432, PyInt 540], theme_colors = PyList [],
       level_filter = PyStr ''all'', cfg_shared_words_path = PyNone \<rparr>"

section \<open>Auxiliary facts\<close>

lemmas path_defs = joinpath_def parent_def parse_path_def splitroot_def

lemma validate_items_all: "validate_items xs = (\<forall>x \<in> set xs. isinstance_dict x)"
  by (induction xs) auto

lemma validate_items_nth: "validate_items xs = (\<forall>i < length xs. isinstance_dict (xs ! i))"
  by (simp add: validate_items_all all_set_conv_all_nth)

lemma validate_data_list:
  "validate_data (PyList xs) =
     (xs \<noteq> [] \<and> (\<forall>i < min 10 (length xs). isinstance_dict (xs ! i)))"
  by (auto simp: validate_data_def validate_items_nth)

lemma validate_data_not_list: "\<not> isinstance_list v \<Longrightarrow> \<not> validate_data v"
  by (cases v) (simp_all add: validate_data_def)

lemma exists_True_iff: "(exists fs p = Inr True) = (\<exists>n. fs p = Found n)"
  by (simp add: exists_def split: lookup.splits)

lemma exists_False_iff: "(exists fs p = Inr False) = (fs p = NotFound)"
  by (simp add: exists_def split: lookup.splits)

lemma exists_Found: "fs p = Found n \<Longrightarrow> exists fs p = Inr True"
  by (simp add: exists_def)

lemma get_target_path_shared:
  assumes "shared_words_path l = Some s" "s \<noteq> []"
    and "exists fs (joinpath (parent (parent (data_path l))) s) = Inr True"
  shows "get_target_path fs l = Inr (joinpath (parent (parent (data_path l))) s)"
  using assms by (simp add: get_target_path_def get_target_path_probed_def Let_def)

lemma get_target_path_fallback:
  assumes "shared_words_path l = Some s"
    and "exists fs (joinpath (parent (parent (data_path l))) s) = Inr False"
  shows "get_target_path fs l = Inr (data_path l)"
  using assms by (simp add: get_target_path_def get_target_path_probed_def Let_def)

lemma get_target_path_raises:
  assumes "shared_words_path l = Some s" "s \<noteq> []"
    and "exists fs (joinpath (parent (parent (data_path l))) s) = Inl e"
  shows "get_target_path fs l = Inl e"
  using assms by (simp add: get_target_path_def get_target_path_probed_def Let_def)

lemma get_target_path_unset:
  "shared_words_path l = None \<Longrightarrow> get_target_path fs l = Inr (data_path l)"
  by (simp add: get_target_path_def get_target_path_probed_def)

lemma load_json_at_target:
  assumes "get_target_path fs l = Inr t"
  shows "load_json fs l =
     (case fs t of
        Found Directory \<Rightarrow> Inl (IsADirectoryError t)
      | Found Unreadable \<Rightarrow> Inl (PermissionError t)
      | Found Undecodable \<Rightarrow> Inl JSONDecodeError
      | Found (Json d) \<Rightarrow> if validate_data d then Inr d else Inl (ValueError (data_path l))
      | NotFound \<Rightarrow> Inl (FileNotFoundError t)
      | NameTooLong \<Rightarrow> Inl (OSError t)
      | AccessDenied \<Rightarrow> Inl (PermissionError t))"
  by (simp add: load_json_def assms exists_def open_json_load_def
           split: lookup.splits node.splits)

lemma load_json_raises:
  "get_target_path fs l = Inl e \<Longrightarrow> load_json fs l = Inl e"
  by (simp add: load_json_def)

lemma get_target_path_error:
  "get_target_path fs l = Inl e \<Longrightarrow> (\<exists>p. e = OSError p \<or> e = PermissionError p)"
  by (auto simp: get_target_path_def get_target_path_probed_def Let_def exists_def
           split: option.splits if_splits lookup.splits)

lemma common_words_join:
  "joinpath (parent (parent ja_words)) ''shared/common_words.json'' = common_words"
  by (simp add: path_defs ja_words_def common_words_def)

lemma split_sep_plain: "CHR ''/'' \<notin> set s \<Longrightarrow> split_sep s = [s]"
  by (induction s) auto

lemma parse_path_plain:
  assumes "CHR ''/'' \<notin> set s" and "s \<noteq> []" and "s \<noteq> ''.''"
  shows "parse_path s = Path NoRoot [s]"
proof -
  from assms(1,2) have "take 1 s \<noteq> ''/''" by (cases s) auto
  then have "splitroot s = (NoRoot, s)" by (simp add: splitroot_def)
  with assms show ?thesis by (simp add: parse_path_def split_sep_plain)
qed

lemma long_name_length: "length long_name = 300"
  by (simp add: long_name_def)

lemma long_name_facts:
  "CHR ''/'' \<notin> set long_name" "long_name \<noteq> []" "long_name \<noteq> ''.''"
proof -
  show "CHR ''/'' \<notin> set long_name" by (simp add: long_name_def)
  show "long_name \<noteq> []" using long_name_length by auto
  show "long_name \<noteq> ''.''"
  proof
    assume "long_name = ''.''"
    then have "length long_name = length ''.''" by (rule arg_cong)
    then show False by (simp add: long_name_length)
  qed
qed

lemma long_name_join:
  "joinpath (parent (parent ja_words)) long_name = Path NoRoot [''languages'', long_name]"
  by (simp add: joinpath_def parent_def ja_words_def parse_path_plain long_name_facts)

lemma name_max_long:
  "name_max fs (Path NoRoot [''languages'', long_name]) = NameTooLong"
  "name_max fs (Path NoRoot [long_name]) = NameTooLong"
  by (simp_all add: name_max_def long_name_length)

lemma name_max_ja_words: "name_max fs ja_words = fs ja_words"
  by (simp add: name_max_def ja_words_def)

lemma LanguageConfig_init_not_missing: "LanguageConfig_init kw \<noteq> Inl (FileNotFoundError q)"
  by (simp add: LanguageConfig_init_def split: option.splits)

lemma from_json_missing:
  "(\<exists>q. from_json fs p = Inl (FileNotFoundError q)) = (exists fs p = Inr False)"
proof (cases "fs p")
  case (Found n)
  then show ?thesis
    by (cases n)
       (simp_all add: from_json_def exists_def open_json_load_def LanguageConfig_init_not_missing
          split: pyval.splits)
qed (simp_all add: from_json_def exists_def)

lemma load_json_missing:
  "(\<exists>q. load_json fs l = Inl (FileNotFoundError q))
     = (\<exists>t. get_target_path fs l = Inr t \<and> exists fs t = Inr False)"
proof (cases "get_target_path fs l")
  case (Inl e)
  from get_target_path_error [OF Inl] have "\<And>q. e \<noteq> FileNotFoundError q" by auto
  then show ?thesis by (simp add: load_json_raises [OF Inl] Inl)
next
  case (Inr t)
  show ?thesis
    unfolding load_json_at_target [OF Inr] Inr exists_False_iff
    by (simp split: lookup.splits node.splits)
qed

lemma map_of_convert_card_size:
  "map_of (convert_card_size d) k =
     (if k = ''card_size''
      then (case map_of d ''card_size'' of
              Some (PyList xs) \<Rightarrow> Some (PyTuple xs)
            | v \<Rightarrow> v)
      else map_of d k)"
  by (simp add: convert_card_size_def update_conv' split: option.splits pyval.splits)

lemma map_of_set_if_absent:
  "map_of (set_if_absent k v d) k' =
     (if k' = k \<and> map_of d k = None then Some v else map_of d k')"
  by (simp add: set_if_absent_def update_conv')

lemma keys_set_if_absent: "fst ` set (set_if_absent k v d) \<subseteq> insert k (fst ` set d)"
  by (simp add: set_if_absent_def dom_update subset_insertI)

lemma keys_convert_card_size: "fst ` set (convert_card_size d) = fst ` set d"
proof (cases "map_of d ''card_size''")
  case None
  then show ?thesis by (simp add: convert_card_size_def)
next
  case (Some v)
  then have "(''card_size'', v) \<in> set d" by (rule map_of_SomeD)
  then have k: "''card_size'' \<in> fst ` set d" by force
  have u: "fst ` set (AList.update ''card_size'' w d) = fst ` set d" for w
    using k by (simp add: dom_update insert_absorb)
  show ?thesis
    unfolding convert_card_size_def Some option.case
    by (cases v) (simp_all only: pyval.case u)
qed

lemma keys_set_if_absent3:
  "fst ` set (set_if_absent k3 v3 (set_if_absent k2 v2 (set_if_absent k1 v1 a)))
     \<subseteq> insert k3 (insert k2 (insert k1 (fst ` set a)))"
proof -
  have 1: "fst ` set (set_if_absent k1 v1 a) \<subseteq> insert k1 (fst ` set a)"
    by (rule keys_set_if_absent)
  have 2: "fst ` set (set_if_absent k2 v2 (set_if_absent k1 v1 a))
             \<subseteq> insert k2 (fst ` set (set_if_absent k1 v1 a))"
    by (rule keys_set_if_absent)
  have 3: "fst ` set (set_if_absent k3 v3 (set_if_absent k2 v2 (set_if_absent k1 v1 a)))
             \<subseteq> insert k3 (fst ` set (set_if_absent k2 v2 (set_if_absent k1 v1 a)))"
    by (rule keys_set_if_absent)
  note 3
  also have "insert k3 (fst ` set (set_if_absent k2 v2 (set_if_absent k1 v1 a)))
               \<subseteq> insert k3 (insert k2 (fst ` set (set_if_absent k1 v1 a)))"
    using 2 by (rule insert_mono)
  also have "\<dots> \<subseteq> insert k3 (insert k2 (insert k1 (fst ` set a)))"
    using 1 by (intro insert_mono)
  finally show ?thesis .
qed

lemma LanguageConfig_init_ok:
  assumes "fst ` set kw \<subseteq> set field_names"
    and "map_of kw ''lang_id'' = Some i" and "map_of kw ''lang_name'' = Some n"
    and "map_of kw ''fonts'' = Some f" and "map_of kw ''styles'' = Some s"
  shows "LanguageConfig_init kw =
     Inr \<lparr> lang_id = i, lang_name = n, fonts = f, styles = s,
           card_size = get_default kw ''card_size'' (PyTuple [PyInt 432, PyInt 540]),
           theme_colors = get_default kw ''theme_colors'' (PyList []),
           level_filter = get_default kw ''level_filter'' (PyStr ''all''),
           cfg_shared_words_path = get_default kw ''shared_words_path'' PyNone \<rparr>"
proof -
  have "list_all (\<lambda>kv. fst kv \<in> set field_names) kw"
    unfolding list_all_iff
  proof
    fix kv assume "kv \<in> set kw"
    then have "fst kv \<in> fst ` set kw" by (rule imageI)
    with assms(1) show "fst kv \<in> set field_names" by (rule subsetD)
  qed
  then show ?thesis
    using assms(2-5) by (simp add: LanguageConfig_init_def)
qed

lemma from_json_ok:
  assumes json: "fs p = Found (Json (PyDict d))"
    and known: "fst ` set d \<subseteq> set field_names"
    and req: "map_of d ''lang_id'' = Some i" "map_of d ''lang_name'' = Some n"
      "map_of d ''fonts'' = Some f" "map_of d ''styles'' = Some s"
  shows "from_json fs p =
     Inr \<lparr> lang_id = i, lang_name = n, fonts = f, styles = s,
           card_size = (case map_of d ''card_size'' of
                          None \<Rightarrow> PyTuple [PyInt 432, PyInt 540]
                        | Some (PyList xs) \<Rightarrow> PyTuple xs
                        | Some v \<Rightarrow> v),
           theme_colors = get_default d ''theme_colors'' (PyList []),
           level_filter = get_default d ''level_filter'' (PyStr ''all''),
           cfg_shared_words_path = get_default d ''shared_words_path'' PyNone \<rparr>"
proof -
  let ?kw = "set_if_absent ''shared_words_path'' PyNone
       (set_if_absent ''level_filter'' (PyStr ''all'')
         (set_if_absent ''theme_colors'' (PyList [])
           (convert_card_size d)))"
  have fj: "from_json fs p = LanguageConfig_init ?kw"
    using json by (simp add: from_json_def exists_def open_json_load_def)
  have "insert ''shared_words_path'' (insert ''level_filter''
          (insert ''theme_colors'' (fst ` set d))) \<subseteq> set field_names"
    using known by (simp add: field_names_def)
  with keys_set_if_absent3 [of "''shared_words_path''" PyNone "''level_filter''" "PyStr ''all''"
         "''theme_colors''" "PyList []" "convert_card_size d"]
  have k: "fst ` set ?kw \<subseteq> set field_names"
    unfolding keys_convert_card_size by (rule order_trans)
  have m: "map_of ?kw ''lang_id'' = Some i" "map_of ?kw ''lang_name'' = Some n"
      "map_of ?kw ''fonts'' = Some f" "map_of ?kw ''styles'' = Some s"
    using req by (simp_all add: map_of_set_if_absent map_of_convert_card_size)
  have c: "get_default ?kw ''card_size'' (PyTuple [PyInt 432, PyInt 540]) =
            (case map_of d ''card_size'' of
                          None \<Rightarrow> PyTuple [PyInt 432, PyInt 540]
                        | Some (PyList xs) \<Rightarrow> PyTuple xs
                        | Some v \<Rightarrow> v)"
    by (simp add: get_default_def map_of_set_if_absent map_of_convert_card_size
          split: option.splits pyval.splits)
  have t: "get_default ?kw ''theme_colors'' (PyList []) = get_default d ''theme_colors'' (PyList [])"
    by (simp add: get_default_def map_of_set_if_absent map_of_convert_card_size
          split: option.splits)
  have l: "get_default ?kw ''level_filter'' (PyStr ''all'') = get_default d ''level_filter'' (PyStr ''all'')"
    by (simp add: get_default_def map_of_set_if_absent map_of_convert_card_size
          split: option.splits)
  have s: "get_default ?kw ''shared_words_path'' PyNone = get_default d ''shared_words_path'' PyNone"
    by (simp add: get_default_def map_of_set_if_absent map_of_convert_card_size
          split: option.splits)
  show ?thesis
    unfolding fj LanguageConfig_init_ok [OF k m] c t l s ..
qed

lemma absent_key: "k \<notin> fst ` set d \<Longrightarrow> map_of d k = None"
  by (simp add: map_of_eq_None_iff)

lemma minimal_config_keys: "fst ` set minimal_config \<subseteq> set field_names"
  by (simp add: minimal_config_def field_names_def)

lemma minimal_config_absent:
  "''card_size'' \<notin> fst ` set minimal_config" "''theme_colors'' \<notin> fst ` set minimal_config"
  "''level_filter'' \<notin> fst ` set minimal_config"
  "''shared_words_path'' \<notin> fst ` set minimal_config"
  by (simp_all add: minimal_config_def)

lemma sized_config_keys: "fst ` set (sized_config xs) \<subseteq> set field_names"
  by (simp add: sized_config_def minimal_config_def field_names_def)

lemma sized_config_lookup:
  "map_of (sized_config xs) ''lang_id'' = Some (PyStr ''ja'')"
  "map_of (sized_config xs) ''lang_name'' = Some (PyStr ''Japanese'')"
  "map_of (sized_config xs) ''fonts'' = Some (PyDict [(''main'', PyStr ''NotoSansJP'')])"
  "map_of (sized_config xs) ''styles'' = Some (PyDict [])"
  "map_of (sized_config xs) ''card_size'' = Some (PyList xs)"
  by (simp_all add: sized_config_def minimal_config_def)

section \<open>Properties of the word loader\<close>

text \<open>
  C1 (as amended): when \<^verbatim>\<open>shared_words_path\<close> is a non-empty string and \<^verbatim>\<open>exists()\<close> is True for
  \<^verbatim>\<open>data_path.parent.parent / shared_words_path\<close>, \<^verbatim>\<open>_get_target_path\<close> returns that shared
  path, and \<^verbatim>\<open>load_json\<close> returns the parsed contents of the shared file whenever they pass
  \<^verbatim>\<open>validate_data\<close>, whatever \<^verbatim>\<open>data_path\<close> holds.
\<close>

theorem shared_file_preferred:
  assumes "shared_words_path l = Some s" and "s \<noteq> []"
    and "exists fs (joinpath (parent (parent (data_path l))) s) = Inr True"
  shows "get_target_path fs l = Inr (joinpath (parent (parent (data_path l))) s)
     \<and> (\<forall>d. fs (joinpath (parent (parent (data_path l))) s) = Found (Json d) \<and> validate_data d
            \<longrightarrow> load_json fs l = Inr d)"
proof -
  have t: "get_target_path fs l = Inr (joinpath (parent (parent (data_path l))) s)"
    using assms by (rule get_target_path_shared)
  show ?thesis
    unfolding load_json_at_target [OF t] using t by simp
qed

text \<open>
  The shared file is returned although the primary file exists and differs.
\<close>

theorem shared_file_preferred_witness:
  "get_target_path fs_both (ja_loader (Some ''shared/common_words.json'')) = Inr common_words
   \<and> load_json fs_both (ja_loader (Some ''shared/common_words.json'')) = Inr shared_list
   \<and> fs_both ja_words = Found (Json primary_list)
   \<and> primary_list \<noteq> shared_list"
proof -
  let ?l = "ja_loader (Some ''shared/common_words.json'')"
  have j: "joinpath (parent (parent (data_path ?l))) ''shared/common_words.json'' = common_words"
    by (simp add: ja_loader_def common_words_join)
  have a: "shared_words_path ?l = Some ''shared/common_words.json''"
    by (simp add: ja_loader_def)
  have b: "''shared/common_words.json'' \<noteq> []" by simp
  have f: "fs_both common_words = Found (Json shared_list)"
    by (simp add: fs_both_def disk_def ja_words_def common_words_def)
  have c: "exists fs_both (joinpath (parent (parent (data_path ?l))) ''shared/common_words.json'')
             = Inr True"
    unfolding j using f by (rule exists_Found)
  have v: "validate_data shared_list"
    by (simp add: shared_list_def validate_data_def)
  have p: "fs_both ja_words = Found (Json primary_list)"
    by (simp add: fs_both_def disk_def)
  have n: "primary_list \<noteq> shared_list"
    by (simp add: primary_list_def shared_list_def)
  from shared_file_preferred [OF a b c] j f v p n show ?thesis by simp
qed

text \<open>
  As first stated, C1 fails in two places: the empty string is a set value for which the
  resolved path exists (the languages directory) and is not returned, and an existing
  shared file holding \<^verbatim>\<open>[]\<close> makes \<^verbatim>\<open>load_json\<close> raise ValueError instead of returning.
\<close>

theorem shared_file_preferred_counterexample:
  "(exists fs_languages_dir (joinpath (parent (parent (data_path (ja_loader (Some ''''))))) '''')
        = Inr True
      \<and> get_target_path fs_languages_dir (ja_loader (Some ''''))
          \<noteq> Inr (joinpath (parent (parent (data_path (ja_loader (Some ''''))))) ''''))
   \<and> (exists fs_shared_empty_list
         (joinpath (parent (parent (data_path (ja_loader (Some ''shared/common_words.json'')))))
            ''shared/common_words.json'') = Inr True
      \<and> load_json fs_shared_empty_list (ja_loader (Some ''shared/common_words.json''))
          = Inl (ValueError ja_words))"
proof -
  let ?l = "ja_loader (Some ''shared/common_words.json'')"
  have j0: "joinpath (parent (parent (data_path (ja_loader (Some ''''))))) ''''
              = Path NoRoot [''languages'']"
    by (simp add: ja_loader_def ja_words_def path_defs)
  have e0: "exists fs_languages_dir (Path NoRoot [''languages'']) = Inr True"
    by (simp add: exists_def fs_languages_dir_def disk_def)
  have t0: "get_target_path fs_languages_dir (ja_loader (Some '''')) = Inr ja_words"
    by (simp add: get_target_path_def get_target_path_probed_def ja_loader_def)
  have n0: "ja_words \<noteq> Path NoRoot [''languages'']"
    by (simp add: ja_words_def)
  have j: "joinpath (parent (parent (data_path ?l))) ''shared/common_words.json'' = common_words"
    by (simp add: ja_loader_def common_words_join)
  have f: "fs_shared_empty_list common_words = Found (Json (PyList []))"
    by (simp add: fs_shared_empty_list_def disk_def ja_words_def common_words_def)
  have e: "exists fs_shared_empty_list common_words = Inr True"
    using f by (rule exists_Found)
  have t: "get_target_path fs_shared_empty_list ?l = Inr common_words"
    using get_target_path_shared [of ?l "''shared/common_words.json''" fs_shared_empty_list]
    by (simp add: j e) (simp add: ja_loader_def)
  have r: "load_json fs_shared_empty_list ?l = Inl (ValueError ja_words)"
    unfolding load_json_at_target [OF t] f
    by (simp add: validate_data_def ja_loader_def)
  show ?thesis
    unfolding j0 j using e0 t0 n0 e r by simp
qed

text \<open>
  C2 (as amended): when \<^verbatim>\<open>shared_words_path\<close> is set and \<^verbatim>\<open>exists()\<close> is False for the resolved
  shared path, \<^verbatim>\<open>_get_target_path\<close> returns \<^verbatim>\<open>data_path\<close> unchanged, and \<^verbatim>\<open>load_json\<close> does exactly
  what a loader with no shared path does: it loads \<^verbatim>\<open>data_path\<close>, and no error comes from
  the missing shared file.
\<close>

theorem missing_shared_falls_back:
  assumes "shared_words_path l = Some s"
    and "exists fs (joinpath (parent (parent (data_path l))) s) = Inr False"
  shows "get_target_path fs l = Inr (data_path l)
     \<and> load_json fs l = load_json fs (l\<lparr>shared_words_path := None\<rparr>)
     \<and> (\<forall>d. fs (data_path l) = Found (Json d) \<and> validate_data d \<longrightarrow> load_json fs l = Inr d)"
proof -
  have t: "get_target_path fs l = Inr (data_path l)"
    using assms by (rule get_target_path_fallback)
  have u: "get_target_path fs (l\<lparr>shared_words_path := None\<rparr>) = Inr (data_path l)"
    by (simp add: get_target_path_unset)
  show ?thesis
    unfolding load_json_at_target [OF t] load_json_at_target [OF u] using t
    by (simp split: lookup.splits node.splits)
qed

text \<open>
  The shared file is missing and the primary file is loaded.
\<close>

theorem missing_shared_falls_back_witness:
  "get_target_path fs_primary_only (ja_loader (Some ''shared/common_words.json'')) = Inr ja_words
   \<and> load_json fs_primary_only (ja_loader (Some ''shared/common_words.json'')) = Inr primary_list"
proof -
  let ?l = "ja_loader (Some ''shared/common_words.json'')"
  have a: "shared_words_path ?l = Some ''shared/common_words.json''"
    by (simp add: ja_loader_def)
  have d: "data_path ?l = ja_words"
    by (simp add: ja_loader_def)
  have n: "fs_primary_only common_words = NotFound"
    by (simp add: fs_primary_only_def disk_def ja_words_def common_words_def)
  have c: "exists fs_primary_only
             (joinpath (parent (parent (data_path ?l))) ''shared/common_words.json'') = Inr False"
    unfolding d common_words_join using n by (simp add: exists_def)
  have p: "fs_primary_only (data_path ?l) = Found (Json primary_list)"
    unfolding d by (simp add: fs_primary_only_def disk_def)
  have v: "validate_data primary_list"
    by (simp add: primary_list_def validate_data_def)
  from missing_shared_falls_back [OF a c] p v
  have "get_target_path fs_primary_only ?l = Inr (data_path ?l)"
    and "load_json fs_primary_only ?l = Inr primary_list"
    by blast+
  then show ?thesis
    unfolding d by simp
qed

text \<open>
  As first stated, C2 covers every shared path that is not on disk. A name of 300
  characters is on no disk, yet \<^verbatim>\<open>exists()\<close> raises OSError for it (name too long), and the
  error leaves \<^verbatim>\<open>_get_target_path\<close> and \<^verbatim>\<open>load_json\<close> although the primary file is valid.
\<close>

theorem missing_shared_falls_back_counterexample:
  "fs_primary_only
     (joinpath (parent (parent (data_path (ja_loader (Some long_name))))) long_name) = NotFound
   \<and> name_max fs_primary_only ja_words = Found (Json primary_list)
   \<and> get_target_path (name_max fs_primary_only) (ja_loader (Some long_name))
       = Inl (OSError (joinpath (parent (parent (data_path (ja_loader (Some long_name))))) long_name))
   \<and> load_json (name_max fs_primary_only) (ja_loader (Some long_name))
       = Inl (OSError (joinpath (parent (parent (data_path (ja_loader (Some long_name))))) long_name))"
proof -
  let ?l = "ja_loader (Some long_name)"
  have d: "data_path ?l = ja_words"
    by (simp add: ja_loader_def)
  have a: "shared_words_path ?l = Some long_name"
    by (simp add: ja_loader_def)
  have n: "fs_primary_only (Path NoRoot [''languages'', long_name]) = NotFound"
    by (simp add: fs_primary_only_def disk_def ja_words_def)
  have p: "name_max fs_primary_only ja_words = Found (Json primary_list)"
    by (simp add: name_max_ja_words fs_primary_only_def disk_def)
  have e: "exists (name_max fs_primary_only) (joinpath (parent (parent (data_path ?l))) long_name)
             = Inl (OSError (Path NoRoot [''languages'', long_name]))"
    unfolding d long_name_join by (simp add: exists_def name_max_long)
  have t: "get_target_path (name_max fs_primary_only) ?l
             = Inl (OSError (Path NoRoot [''languages'', long_name]))"
    using a long_name_facts(2) e by (rule get_target_path_raises)
  have r: "load_json (name_max fs_primary_only) ?l
             = Inl (OSError (Path NoRoot [''languages'', long_name]))"
    using t by (rule load_json_raises)
  show ?thesis
    unfolding d long_name_join using n p t r by simp
qed

text \<open>
  C4: \<^verbatim>\<open>validate_data\<close> is false for a value that is not a list, false for the empty
  list, false for a list with a non-dict among its first \<^verbatim>\<open>min(10, len)\<close> entries, and true for
  a non-empty list whose first \<^verbatim>\<open>min(10, len)\<close> entries are all dicts; so \<^verbatim>\<open>[{}]\<close> is valid and
  \<^verbatim>\<open>["not-a-dict"]\<close> is not.
\<close>

theorem validate_data_spec:
  "(\<not> isinstance_list v \<longrightarrow> \<not> validate_data v)
   \<and> \<not> validate_data (PyList [])
   \<and> ((\<exists>i < min 10 (length xs). \<not> isinstance_dict (xs ! i)) \<longrightarrow> \<not> validate_data (PyList xs))
   \<and> (xs \<noteq> [] \<and> (\<forall>i < min 10 (length xs). isinstance_dict (xs ! i))
        \<longrightarrow> validate_data (PyList xs))
   \<and> validate_data (PyList [PyDict []])
   \<and> \<not> validate_data (PyList [PyStr ''not-a-dict''])"
  using validate_data_not_list [of v] validate_data_list [of xs]
  by (auto simp: validate_data_def)

theorem validate_data_spec_witness:
  "\<not> validate_data (PyDict [(''word'', PyStr ''neko'')])
   \<and> \<not> validate_data (PyList [PyDict [], PyInt 7])
   \<and> validate_data (PyList [PyDict [], PyDict [(''word'', PyStr ''neko'')]])"
proof -
  have a: "\<not> isinstance_list (PyDict [(''word'', PyStr ''neko'')])"
    by simp
  have b: "\<exists>i < min 10 (length [PyDict [], PyInt 7]). \<not> isinstance_dict ([PyDict [], PyInt 7] ! i)"
    by (rule exI [of _ 1]) simp
  have c: "[PyDict [], PyDict [(''word'', PyStr ''neko'')]] \<noteq> []
           \<and> (\<forall>i < min 10 (length [PyDict [], PyDict [(''word'', PyStr ''neko'')]]).
                  isinstance_dict ([PyDict [], PyDict [(''word'', PyStr ''neko'')]] ! i))"
    by (simp add: less_Suc_eq)
  from validate_data_spec [of "PyDict [(''word'', PyStr ''neko'')]" "[PyDict [], PyInt 7]"] a b
  have 1: "\<not> validate_data (PyDict [(''word'', PyStr ''neko'')])"
    and 2: "\<not> validate_data (PyList [PyDict [], PyInt 7])"
    by blast+
  from validate_data_spec [of PyNone "[PyDict [], PyDict [(''word'', PyStr ''neko'')]]"] c
  have 3: "validate_data (PyList [PyDict [], PyDict [(''word'', PyStr ''neko'')]])"
    by blast
  from 1 2 3 show ?thesis by blast
qed

text \<open>
  C5 (as amended): \<^verbatim>\<open>from_json\<close> raises FileNotFoundError exactly when \<^verbatim>\<open>exists()\<close> is
  False for the config path, and \<^verbatim>\<open>load_json\<close> raises it exactly when \<^verbatim>\<open>_get_target_path\<close>
  returns a path for which \<^verbatim>\<open>exists()\<close> is False; the outcome is then the error alone, naming
  that path.
\<close>

theorem not_found_iff_probe_false:
  "((\<exists>q. from_json fs p = Inl (FileNotFoundError q)) \<longleftrightarrow> exists fs p = Inr False)
   \<and> (exists fs p = Inr False \<longrightarrow> from_json fs p = Inl (FileNotFoundError p))
   \<and> ((\<exists>q. load_json fs l = Inl (FileNotFoundError q))
        \<longleftrightarrow> (\<exists>t. get_target_path fs l = Inr t \<and> exists fs t = Inr False))
   \<and> (\<forall>t. get_target_path fs l = Inr t \<and> exists fs t = Inr False
        \<longrightarrow> load_json fs l = Inl (FileNotFoundError t))"
proof -
  have a: "exists fs p = Inr False \<longrightarrow> from_json fs p = Inl (FileNotFoundError p)"
    by (simp add: from_json_def)
  have b: "\<forall>t. get_target_path fs l = Inr t \<and> exists fs t = Inr False
        \<longrightarrow> load_json fs l = Inl (FileNotFoundError t)"
    by (simp add: load_json_def)
  from a b from_json_missing [of fs p] load_json_missing [of fs l] show ?thesis
    by simp
qed

text \<open>
  A missing config file, a present word list, a present shared file, an empty disk.
\<close>

theorem not_found_iff_probe_false_witness:
  "from_json fs_primary_only common_words = Inl (FileNotFoundError common_words)
   \<and> load_json fs_primary_only (ja_loader None) \<noteq> Inl (FileNotFoundError ja_words)
   \<and> load_json fs_shared_empty_list (ja_loader (Some ''shared/common_words.json''))
       \<noteq> Inl (FileNotFoundError common_words)
   \<and> load_json (disk []) (ja_loader (Some ''shared/common_words.json''))
       = Inl (FileNotFoundError ja_words)"
proof -
  let ?l = "ja_loader (Some ''shared/common_words.json'')"
  have a: "exists fs_primary_only common_words = Inr False"
    by (simp add: exists_def fs_primary_only_def disk_def ja_words_def common_words_def)
  have w: "get_target_path fs_primary_only (ja_loader None) = Inr ja_words"
    by (simp add: get_target_path_unset ja_loader_def)
  have d: "exists fs_primary_only ja_words = Inr True"
    by (simp add: exists_def fs_primary_only_def disk_def)
  have j: "joinpath (parent (parent (data_path ?l))) ''shared/common_words.json'' = common_words"
    by (simp add: ja_loader_def common_words_join)
  have s: "shared_words_path ?l = Some ''shared/common_words.json''"
    by (simp add: ja_loader_def)
  have e: "exists fs_shared_empty_list common_words = Inr True"
    by (simp add: exists_def fs_shared_empty_list_def disk_def ja_words_def common_words_def)
  have t: "get_target_path fs_shared_empty_list ?l = Inr common_words"
    using get_target_path_shared [of ?l "''shared/common_words.json''" fs_shared_empty_list]
    by (simp add: j e s)
  have n: "exists (disk []) common_words = Inr False" "exists (disk []) ja_words = Inr False"
    by (simp_all add: exists_def disk_def)
  have u: "get_target_path (disk []) ?l = Inr ja_words"
    using get_target_path_fallback [of ?l "''shared/common_words.json''" "disk []"]
    by (simp add: j n s) (simp add: ja_loader_def)
  from not_found_iff_probe_false [of fs_primary_only common_words "ja_loader None"] a w d
  have 1: "from_json fs_primary_only common_words = Inl (FileNotFoundError common_words)"
    and 2: "load_json fs_primary_only (ja_loader None) \<noteq> Inl (FileNotFoundError ja_words)"
    by auto
  from not_found_iff_probe_false [of fs_shared_empty_list ja_words ?l] t e
  have 3: "load_json fs_shared_empty_list ?l \<noteq> Inl (FileNotFoundError common_words)"
    by auto
  from not_found_iff_probe_false [of "disk []" ja_words ?l] u n
  have 4: "load_json (disk []) ?l = Inl (FileNotFoundError ja_words)"
    by simp
  from 1 2 3 4 show ?thesis by simp
qed

text \<open>
  As first stated, C5 gives FileNotFoundError for every path that is not on disk. A
  name of 300 characters is on no disk, and both functions raise the OSError of
  \<^verbatim>\<open>exists()\<close> for it instead.
\<close>

theorem not_found_iff_probe_false_counterexample:
  "fs_primary_only (Path NoRoot [long_name]) = NotFound
   \<and> from_json (name_max fs_primary_only) (Path NoRoot [long_name])
       = Inl (OSError (Path NoRoot [long_name]))
   \<and> load_json (name_max fs_primary_only)
         \<lparr>data_path = Path NoRoot [long_name], shared_words_path = None\<rparr>
       = Inl (OSError (Path NoRoot [long_name]))"
proof -
  have n: "fs_primary_only (Path NoRoot [long_name]) = NotFound"
    by (simp add: fs_primary_only_def disk_def ja_words_def)
  have f: "from_json (name_max fs_primary_only) (Path NoRoot [long_name])
             = Inl (OSError (Path NoRoot [long_name]))"
    by (simp add: from_json_def exists_def name_max_long)
  have t: "get_target_path (name_max fs_primary_only)
             \<lparr>data_path = Path NoRoot [long_name], shared_words_path = None\<rparr>
           = Inr (Path NoRoot [long_name])"
    by (simp add: get_target_path_unset)
  have l: "load_json (name_max fs_primary_only)
             \<lparr>data_path = Path NoRoot [long_name], shared_words_path = None\<rparr>
           = Inl (OSError (Path NoRoot [long_name]))"
    unfolding load_json_at_target [OF t] by (simp add: name_max_long)
  from n f l show ?thesis by simp
qed

text \<open>
  C6: when the file at the resolved path parses and \<^verbatim>\<open>validate_data\<close> rejects the
  parsed value, \<^verbatim>\<open>load_json\<close> raises ValueError naming the configured \<^verbatim>\<open>data_path\<close>, also when
  the resolved path is the shared file.
\<close>

theorem invalid_format_names_data_path:
  assumes "get_target_path fs l = Inr t" and "fs t = Found (Json d)" and "\<not> validate_data d"
  shows "load_json fs l = Inl (ValueError (data_path l))"
  unfolding load_json_at_target [OF assms(1)] using assms(2,3) by simp

theorem invalid_format_names_data_path_witness:
  "get_target_path fs_shared_empty_list (ja_loader (Some ''shared/common_words.json''))
     = Inr common_words
   \<and> load_json fs_shared_empty_list (ja_loader (Some ''shared/common_words.json''))
     = Inl (ValueError ja_words)
   \<and> ja_words \<noteq> common_words"
proof -
  let ?l = "ja_loader (Some ''shared/common_words.json'')"
  have j: "joinpath (parent (parent (data_path ?l))) ''shared/common_words.json'' = common_words"
    by (simp add: ja_loader_def common_words_join)
  have s: "shared_words_path ?l = Some ''shared/common_words.json''"
    by (simp add: ja_loader_def)
  have f: "fs_shared_empty_list common_words = Found (Json (PyList []))"
    by (simp add: fs_shared_empty_list_def disk_def ja_words_def common_words_def)
  have t: "get_target_path fs_shared_empty_list ?l = Inr common_words"
    using get_target_path_shared [of ?l "''shared/common_words.json''" fs_shared_empty_list]
    by (simp add: j s exists_Found [of fs_shared_empty_list common_words, OF f])
  have v: "\<not> validate_data (PyList [])"
    by (simp add: validate_data_def)
  have n: "ja_words \<noteq> common_words"
    by (simp add: ja_words_def common_words_def)
  from invalid_format_names_data_path [OF t f v] t n
  show ?thesis
    by (simp add: ja_loader_def)
qed

text \<open>
  C9: with \<^verbatim>\<open>shared_words_path\<close> equal to the empty string, \<^verbatim>\<open>_get_target_path\<close> returns
  \<^verbatim>\<open>data_path\<close> and calls \<^verbatim>\<open>exists()\<close> on no path, and the loader behaves as one whose
  \<^verbatim>\<open>shared_words_path\<close> is None.
\<close>

theorem empty_shared_is_unset:
  assumes "shared_words_path l = Some []"
  shows "get_target_path_probed fs l = (Inr (data_path l), [])
     \<and> get_target_path fs l = Inr (data_path l)
     \<and> get_target_path fs l = get_target_path fs (l\<lparr>shared_words_path := None\<rparr>)
     \<and> load_json fs l = load_json fs (l\<lparr>shared_words_path := None\<rparr>)"
proof -
  have p: "get_target_path_probed fs l = (Inr (data_path l), [])"
    using assms by (simp add: get_target_path_probed_def)
  then have t: "get_target_path fs l = Inr (data_path l)"
    by (simp add: get_target_path_def)
  have u: "get_target_path fs (l\<lparr>shared_words_path := None\<rparr>) = Inr (data_path l)"
    by (simp add: get_target_path_unset)
  have "load_json fs l = load_json fs (l\<lparr>shared_words_path := None\<rparr>)"
    unfolding load_json_at_target [OF t] load_json_at_target [OF u]
    by (simp split: lookup.splits node.splits)
  with p t u show ?thesis by simp
qed

theorem empty_shared_is_unset_witness:
  "exists fs_languages_dir (joinpath (parent (parent ja_words)) '''') = Inr True
   \<and> get_target_path_probed fs_languages_dir (ja_loader (Some '''')) = (Inr ja_words, [])
   \<and> load_json fs_languages_dir (ja_loader (Some '''')) = Inr primary_list"
proof -
  have a: "shared_words_path (ja_loader (Some '''')) = Some []"
    by (simp add: ja_loader_def)
  have j: "joinpath (parent (parent ja_words)) '''' = Path NoRoot [''languages'']"
    by (simp add: path_defs ja_words_def)
  have e: "exists fs_languages_dir (joinpath (parent (parent ja_words)) '''') = Inr True"
    unfolding j by (simp add: exists_def fs_languages_dir_def disk_def)
  have t: "get_target_path fs_languages_dir (ja_loader (Some '''')\<lparr>shared_words_path := None\<rparr>)
             = Inr ja_words"
    by (simp add: get_target_path_unset ja_loader_def)
  have f: "fs_languages_dir ja_words = Found (Json primary_list)"
    by (simp add: fs_languages_dir_def disk_def ja_words_def)
  have u: "load_json fs_languages_dir (ja_loader (Some '''')\<lparr>shared_words_path := None\<rparr>)
             = Inr primary_list"
    unfolding load_json_at_target [OF t] f
    by (simp add: primary_list_def validate_data_def)
  from empty_shared_is_unset [OF a, of fs_languages_dir] e u show ?thesis
    by (simp add: ja_loader_def)
qed

text \<open>
  C10: a list longer than 10 whose first 10 entries are dicts passes
  \<^verbatim>\<open>validate_data\<close> whatever follows, so \<^verbatim>\<open>load_json\<close> returns it, non-dict entries included.
\<close>

theorem unsampled_entries_pass:
  assumes "10 < length xs" and "\<forall>i < 10. isinstance_dict (xs ! i)"
  shows "validate_data (PyList xs)
     \<and> (\<forall>fs l t. get_target_path fs l = Inr t \<and> fs t = Found (Json (PyList xs))
            \<longrightarrow> load_json fs l = Inr (PyList xs))"
proof -
  have v: "validate_data (PyList xs)"
    using assms by (auto simp: validate_data_list)
  then show ?thesis
    by (simp add: load_json_at_target)
qed

theorem unsampled_entries_pass_witness:
  "load_json fs_long (ja_loader None) = Inr (PyList ten_dicts_then_str)
   \<and> \<not> isinstance_dict (ten_dicts_then_str ! 10)
   \<and> length ten_dicts_then_str = 11"
proof -
  have a: "10 < length ten_dicts_then_str"
    by (simp add: ten_dicts_then_str_def)
  have b: "\<forall>i < 10. isinstance_dict (ten_dicts_then_str ! i)"
    by (simp add: ten_dicts_then_str_def nth_append)
  have t: "get_target_path fs_long (ja_loader None) = Inr ja_words"
    by (simp add: get_target_path_unset ja_loader_def)
  have f: "fs_long ja_words = Found (Json (PyList ten_dicts_then_str))"
    by (simp add: fs_long_def disk_def)
  have c: "\<not> isinstance_dict (ten_dicts_then_str ! 10)"
    by (simp add: ten_dicts_then_str_def nth_append)
  from unsampled_entries_pass [OF a b] t f
  have "load_json fs_long (ja_loader None) = Inr (PyList ten_dicts_then_str)"
    by blast
  with a c show ?thesis
    by (simp add: ten_dicts_then_str_def)
qed

section \<open>Properties of the language configuration\<close>

text \<open>
  C3: for a config document that is a JSON object with the four required keys
  and no key outside the declared fields, \<^verbatim>\<open>from_json\<close> returns a record in which every
  optional field absent from the document holds its default: \<^verbatim>\<open>card_size = (432, 540)\<close>,
  \<^verbatim>\<open>theme_colors = []\<close>, \<^verbatim>\<open>level_filter = "all"\<close>, \<^verbatim>\<open>shared_words_path = None\<close>.
\<close>

theorem absent_fields_get_defaults:
  assumes "fs p = Found (Json (PyDict d))"
    and "fst ` set d \<subseteq> set field_names"
    and "map_of d ''lang_id'' = Some i" and "map_of d ''lang_name'' = Some n"
    and "map_of d ''fonts'' = Some f" and "map_of d ''styles'' = Some s"
  shows "\<exists>r. from_json fs p = Inr r
     \<and> (''card_size'' \<notin> fst ` set d \<longrightarrow> card_size r = PyTuple [PyInt 432, PyInt 540])
     \<and> (''theme_colors'' \<notin> fst ` set d \<longrightarrow> theme_colors r = PyList [])
     \<and> (''level_filter'' \<notin> fst ` set d \<longrightarrow> level_filter r = PyStr ''all'')
     \<and> (''shared_words_path'' \<notin> fst ` set d \<longrightarrow> cfg_shared_words_path r = PyNone)"
  unfolding from_json_ok [where fs = fs and p = p, OF assms]
  by (simp add: absent_key get_default_def)

theorem absent_fields_get_defaults_witness:
  "\<exists>r. from_json (fs_config minimal_config) config_json = Inr r
     \<and> card_size r = PyTuple [PyInt 432, PyInt 540]
     \<and> theme_colors r = PyList []
     \<and> level_filter r = PyStr ''all''
     \<and> cfg_shared_words_path r = PyNone"
proof -
  have a: "fs_config minimal_config config_json = Found (Json (PyDict minimal_config))"
    by (simp add: fs_config_def disk_def)
  have m: "map_of minimal_config ''lang_id'' = Some (PyStr ''ja'')"
    "map_of minimal_config ''lang_name'' = Some (PyStr ''Japanese'')"
    "map_of minimal_config ''fonts'' = Some (PyDict [(''main'', PyStr ''NotoSansJP'')])"
    "map_of minimal_config ''styles'' = Some (PyDict [])"
    by (simp_all add: minimal_config_def)
  from absent_fields_get_defaults
         [where fs = "fs_config minimal_config" and p = config_json, OF a minimal_config_keys m]
       minimal_config_absent
  show ?thesis by simp
qed

text \<open>
  C7 (as amended): when \<^verbatim>\<open>card_size\<close> is present as a list, \<^verbatim>\<open>from_json\<close> stores the tuple of
  the same values in the same order, of whatever length the list has; for a 2-element list
  this is a 2-tuple with identical values in order.
\<close>

theorem card_size_list_to_tuple:
  assumes "fs p = Found (Json (PyDict d))"
    and "fst ` set d \<subseteq> set field_names"
    and "map_of d ''lang_id'' = Some i" and "map_of d ''lang_name'' = Some n"
    and "map_of d ''fonts'' = Some f" and "map_of d ''styles'' = Some s"
    and "map_of d ''card_size'' = Some (PyList xs)"
  shows "\<exists>r. from_json fs p = Inr r \<and> card_size r = PyTuple xs
     \<and> (\<forall>w h. xs = [w, h] \<longrightarrow> card_size r = PyTuple [w, h])"
  unfolding from_json_ok [where fs = fs and p = p, OF assms(1-6)]
  by (simp add: assms(7))

theorem card_size_list_to_tuple_witness:
  "\<exists>r. from_json (fs_config (sized_config [PyInt 800, PyInt 600])) config_json = Inr r
     \<and> card_size r = PyTuple [PyInt 800, PyInt 600]"
proof -
  have a: "fs_config (sized_config [PyInt 800, PyInt 600]) config_json
             = Found (Json (PyDict (sized_config [PyInt 800, PyInt 600])))"
    by (simp add: fs_config_def disk_def)
  from card_size_list_to_tuple
         [where fs = "fs_config (sized_config [PyInt 800, PyInt 600])" and p = config_json,
          OF a sized_config_keys sized_config_lookup]
  show ?thesis by blast
qed

text \<open>
  As first stated, C7 promises a 2-tuple for every list: a 3-element list yields a 3-tuple.
\<close>

theorem card_size_list_to_tuple_counterexample:
  "from_json (fs_config (sized_config [PyInt 1, PyInt 2, PyInt 3])) config_json
     = Inr (ja_config\<lparr>card_size := PyTuple [PyInt 1, PyInt 2, PyInt 3]\<rparr>)"
proof -
  have a: "fs_config (sized_config [PyInt 1, PyInt 2, PyInt 3]) config_json
             = Found (Json (PyDict (sized_config [PyInt 1, PyInt 2, PyInt 3])))"
    by (simp add: fs_config_def disk_def)
  show ?thesis
    unfolding from_json_ok
        [where fs = "fs_config (sized_config [PyInt 1, PyInt 2, PyInt 3])" and p = config_json,
         OF a sized_config_keys sized_config_lookup(1-4)]
    by (simp add: ja_config_def get_default_def sized_config_def minimal_config_def)
qed

text \<open>
  C8 (as amended): for a record whose \<^verbatim>\<open>card_size\<close> is a value that \<^verbatim>\<open>list()\<close> accepts (a tuple, a
  list, a string or a dict), \<^verbatim>\<open>to_dict\<close> returns a dict with exactly the keys \<^verbatim>\<open>lang_id\<close>,
  \<^verbatim>\<open>lang_name\<close>, \<^verbatim>\<open>fonts\<close>, \<^verbatim>\<open>styles\<close>, \<^verbatim>\<open>card_size\<close> (as the list \<^verbatim>\<open>list(card_size)\<close>) and
  \<^verbatim>\<open>theme_colors\<close>, each with the record's value, and without \<^verbatim>\<open>level_filter\<close> and
  \<^verbatim>\<open>shared_words_path\<close>.
\<close>

theorem to_dict_projection:
  assumes "py_list (card_size r) = Inr xs"
  shows "\<exists>m. to_dict r = Inr m
     \<and> map fst m = [''lang_id'', ''lang_name'', ''fonts'', ''styles'', ''card_size'',
                     ''theme_colors'']
     \<and> map_of m ''lang_id'' = Some (lang_id r)
     \<and> map_of m ''lang_name'' = Some (lang_name r)
     \<and> map_of m ''fonts'' = Some (fonts r)
     \<and> map_of m ''styles'' = Some (styles r)
     \<and> map_of m ''card_size'' = Some (PyList xs)
     \<and> map_of m ''theme_colors'' = Some (theme_colors r)
     \<and> map_of m ''level_filter'' = None
     \<and> map_of m ''shared_words_path'' = None"
  by (simp add: to_dict_def assms)

text \<open>
  A tuple, a list, a string and a dict as \<^verbatim>\<open>card_size\<close>.
\<close>

theorem to_dict_projection_witness:
  "(\<exists>m. to_dict ja_config = Inr m
      \<and> map fst m = [''lang_id'', ''lang_name'', ''fonts'', ''styles'', ''card_size'',
                      ''theme_colors'']
      \<and> map_of m ''lang_id'' = Some (PyStr ''ja'')
      \<and> map_of m ''lang_name'' = Some (PyStr ''Japanese'')
      \<and> map_of m ''fonts'' = Some (PyDict [(''main'', PyStr ''NotoSansJP'')])
      \<and> map_of m ''styles'' = Some (PyDict [])
      \<and> map_of m ''card_size'' = Some (PyList [PyInt 432, PyInt 540])
      \<and> map_of m ''theme_colors'' = Some (PyList [])
      \<and> map_of m ''level_filter'' = None
      \<and> map_of m ''shared_words_path'' = None)
   \<and> (\<exists>m. to_dict (ja_config\<lparr>card_size := PyList [PyInt 800, PyInt 600]\<rparr>) = Inr m
      \<and> map_of m ''card_size'' = Some (PyList [PyInt 800, PyInt 600]))
   \<and> (\<exists>m. to_dict (ja_config\<lparr>card_size := PyStr ''ab''\<rparr>) = Inr m
      \<and> map_of m ''card_size'' = Some (PyList [PyStr ''a'', PyStr ''b'']))
   \<and> (\<exists>m. to_dict (ja_config\<lparr>card_size := PyDict [(''w'', PyInt 432)]\<rparr>) = Inr m
      \<and> map_of m ''card_size'' = Some (PyList [PyStr ''w'']))"
proof -
  have a: "py_list (card_size ja_config) = Inr [PyInt 432, PyInt 540]"
    by (simp add: ja_config_def)
  have f: "lang_id ja_config = PyStr ''ja''" "lang_name ja_config = PyStr ''Japanese''"
    "fonts ja_config = PyDict [(''main'', PyStr ''NotoSansJP'')]"
    "styles ja_config = PyDict []" "theme_colors ja_config = PyList []"
    by (simp_all add: ja_config_def)
  have 1: "\<exists>m. to_dict ja_config = Inr m
      \<and> map fst m = [''lang_id'', ''lang_name'', ''fonts'', ''styles'', ''card_size'',
                      ''theme_colors'']
      \<and> map_of m ''lang_id'' = Some (PyStr ''ja'')
      \<and> map_of m ''lang_name'' = Some (PyStr ''Japanese'')
      \<and> map_of m ''fonts'' = Some (PyDict [(''main'', PyStr ''NotoSansJP'')])
      \<and> map_of m ''styles'' = Some (PyDict [])
      \<and> map_of m ''card_size'' = Some (PyList [PyInt 432, PyInt 540])
      \<and> map_of m ''theme_colors'' = Some (PyList [])
      \<and> map_of m ''level_filter'' = None
      \<and> map_of m ''shared_words_path'' = None"
    using to_dict_projection [OF a] unfolding f .
  have b: "py_list (card_size (ja_config\<lparr>card_size := PyList [PyInt 800, PyInt 600]\<rparr>))
             = Inr [PyInt 800, PyInt 600]"
    by simp
  have 2: "\<exists>m. to_dict (ja_config\<lparr>card_size := PyList [PyInt 800, PyInt 600]\<rparr>) = Inr m
      \<and> map_of m ''card_size'' = Some (PyList [PyInt 800, PyInt 600])"
    using to_dict_projection [OF b] by auto
  have c: "py_list (card_size (ja_config\<lparr>card_size := PyStr ''ab''\<rparr>))
             = Inr [PyStr ''a'', PyStr ''b'']"
    by simp
  have 3: "\<exists>m. to_dict (ja_config\<lparr>card_size := PyStr ''ab''\<rparr>) = Inr m
      \<and> map_of m ''card_size'' = Some (PyList [PyStr ''a'', PyStr ''b''])"
    using to_dict_projection [OF c] by auto
  have d: "py_list (card_size (ja_config\<lparr>card_size := PyDict [(''w'', PyInt 432)]\<rparr>))
             = Inr [PyStr ''w'']"
    by simp
  have 4: "\<exists>m. to_dict (ja_config\<lparr>card_size := PyDict [(''w'', PyInt 432)]\<rparr>) = Inr m
      \<and> map_of m ''card_size'' = Some (PyList [PyStr ''w''])"
    using to_dict_projection [OF d] by auto
  from 1 2 3 4 show ?thesis by (intro conjI)
qed

text \<open>
  As first stated, C8 covers every record. The dataclass checks no types: a document
  with \<^verbatim>\<open>"card_size": null\<close> loads into a record with \<^verbatim>\<open>card_size = None\<close>, on which
  \<^verbatim>\<open>to_dict\<close> raises TypeError.
\<close>

theorem to_dict_projection_counterexample:
  "from_json (fs_config ((''card_size'', PyNone) # minimal_config)) config_json
     = Inr (ja_config\<lparr>card_size := PyNone\<rparr>)
   \<and> to_dict (ja_config\<lparr>card_size := PyNone\<rparr>) = Inl TypeError"
proof -
  let ?d = "(''card_size'', PyNone) # minimal_config"
  have a: "fs_config ?d config_json = Found (Json (PyDict ?d))"
    by (simp add: fs_config_def disk_def)
  have k: "fst ` set ?d \<subseteq> set field_names"
    using minimal_config_keys by (simp add: field_names_def)
  have m: "map_of ?d ''lang_id'' = Some (PyStr ''ja'')"
    "map_of ?d ''lang_name'' = Some (PyStr ''Japanese'')"
    "map_of ?d ''fonts'' = Some (PyDict [(''main'', PyStr ''NotoSansJP'')])"
    "map_of ?d ''styles'' = Some (PyDict [])"
    by (simp_all add: minimal_config_def)
  have 1: "from_json (fs_config ?d) config_json = Inr (ja_config\<lparr>card_size := PyNone\<rparr>)"
    unfolding from_json_ok [where fs = "fs_config ?d" and p = config_json, OF a k m]
    by (simp add: ja_config_def get_default_def minimal_config_def)
  have 2: "to_dict (ja_config\<lparr>card_size := PyNone\<rparr>) = Inl TypeError"
    by (simp add: to_dict_def)
  from 1 2 show ?thesis by (rule conjI)
qed

end
